theory Spec2Isabelle
  imports
    Complex_Main
    "HOL-Library.Char_ord"
    "HOL-Library.List_Lexorder"
begin

section \<open>Canteen ordering: the order and pricing engine of \<^verbatim>\<open>main.py\<close>\<close>

text \<open>
  The development embeds the pricing function \<^verbatim>\<open>calculate_discounted_price\<close>, the
  order and offer queries of \<^verbatim>\<open>DatabaseHandler\<close> and the helper \<^verbatim>\<open>Order.create\<close>.

  Conventions of the embedding:
  \<^item> a Python \<^verbatim>\<open>float\<close> (a price, a discount value, an amount) is a rational number and
    the arithmetic on it is exact. The theorems below use the order on these numbers and
    the shape of the computations only; nothing here speaks about the rounding error of
    IEEE-754 additions and multiplications;
  \<^item> a Python \<^verbatim>\<open>str\<close> and an SQLite \<^verbatim>\<open>TEXT\<close> value is a \<^typ>\<open>string\<close>, compared the way
    SQLite's default collation compares it: byte by byte, a proper prefix first;
  \<^item> a nullable column is an \<^typ>\<open>'a option\<close>, \<^term>\<open>None\<close> for \<^verbatim>\<open>NULL\<close>;
  \<^item> a table is the list of its rows in insertion order;
  \<^item> the clock and the random number generator are inputs of the operations that read them.
\<close>

subsection \<open>Text: \<^verbatim>\<open>str\<close> of an integer, padding, fixed-point formatting\<close>

definition digit_char :: "nat \<Rightarrow> char" where
  "digit_char d = ''0123456789'' ! d"

fun str_nat :: "nat \<Rightarrow> string" where
  "str_nat n = (if n < 10 then [digit_char n] else str_nat (n div 10) @ [digit_char (n mod 10)])"

declare str_nat.simps [simp del]

text \<open>\<^verbatim>\<open>str(i)\<close> for a Python integer.\<close>

definition str_int :: "int \<Rightarrow> string" where
  "str_int i = (if i < 0 then ''-'' @ str_nat (nat (- i)) else str_nat (nat i))"

text \<open>Left padding with zeros up to a width, as \<^verbatim>\<open>%02d\<close> and \<^verbatim>\<open>%04d\<close> do.\<close>

definition zfill :: "nat \<Rightarrow> string \<Rightarrow> string" where
  "zfill w s = replicate (w - length s) (CHR ''0'') @ s"

text \<open>Rounding to the nearest integer, an exact tie going to the even neighbour.\<close>

definition round_half_even :: "rat \<Rightarrow> int" where
  "round_half_even x =
     (let f = \<lfloor>x\<rfloor>; r = x - of_int f
      in if r < 1 / 2 then f
         else if 1 / 2 < r then f + 1
         else if even f then f else f + 1)"

text \<open>\<^verbatim>\<open>round(x, ndigits)\<close>.\<close>

definition py_round :: "rat \<Rightarrow> nat \<Rightarrow> rat" where
  "py_round x ndigits = of_int (round_half_even (x * 10 ^ ndigits)) / 10 ^ ndigits"

text \<open>
  The format specifications \<^verbatim>\<open>:.0f\<close> and \<^verbatim>\<open>:.2f\<close>: \<^term>\<open>format_f prec x\<close> prints \<open>x\<close>
  with \<open>prec\<close> digits after the point; a negative number keeps its sign even when it
  rounds to zero.
\<close>

definition format_f :: "nat \<Rightarrow> rat \<Rightarrow> string" where
  "format_f prec x =
     (let n = nat (round_half_even (\<bar>x\<bar> * 10 ^ prec));
          whole = n div 10 ^ prec;
          frac = n mod 10 ^ prec
      in (if x < 0 then ''-'' else '''') @ str_nat whole @
         (if prec = 0 then '''' else ''.'' @ zfill prec (str_nat frac)))"

subsection \<open>Offers and the best discount\<close>

text \<open>
  An offer as \<^verbatim>\<open>get_active_offers_for_item\<close> hands it to the pricing function: the
  dictionary with the eight keys below. A row of the table \<^verbatim>\<open>offers\<close> has the column
  \<^verbatim>\<open>active\<close> in addition, which \<^verbatim>\<open>create_offer\<close> and \<^verbatim>\<open>update_offer\<close> write as 1 or 0.
\<close>

record offer =
  offer_id :: int
  offer_name :: string
  item_id :: "int option"
  discount_type :: string
  discount_value :: rat
  start_date :: "string option"
  end_date :: "string option"
  day_of_week :: "string option"

record offer_row = offer +
  active :: bool

text \<open>
  The loop of \<^verbatim>\<open>calculate_discounted_price\<close> over the offers. The accumulator is the pair
  of the variables \<^verbatim>\<open>best_offer\<close> and \<^verbatim>\<open>best_discount\<close>.
\<close>

fun best_offer_loop :: "rat \<Rightarrow> offer list \<Rightarrow> offer option \<times> rat \<Rightarrow> offer option \<times> rat" where
  "best_offer_loop original_price [] acc = acc"
| "best_offer_loop original_price (offer # rest) (best_offer, best_discount) =
     (let discount =
        (if discount_type offer = ''PERCENTAGE''
         then original_price * (discount_value offer / 100)
         else discount_value offer)
      in if best_discount < discount
         then best_offer_loop original_price rest (Some offer, discount)
         else best_offer_loop original_price rest (best_offer, best_discount))"

definition calculate_discounted_price :: "rat \<Rightarrow> offer list \<Rightarrow> rat \<times> string option" where
  "calculate_discounted_price original_price offers =
     (if offers = [] then (original_price, None)
      else
        (case best_offer_loop original_price offers (None, 0) of
           (Some best_offer, best_discount) \<Rightarrow>
             (max 0 (original_price - best_discount),
              Some (offer_name best_offer @ '': '' @
                (if discount_type best_offer = ''PERCENTAGE''
                 then format_f 0 (discount_value best_offer) @ ''% off''
                 else ''Rs '' @ format_f 2 (discount_value best_offer) @ '' off'')))
         | (None, best_discount) \<Rightarrow> (original_price, None)))"

subsection \<open>The clock\<close>

text \<open>
  A reading of \<^verbatim>\<open>dt.datetime.now()\<close>. The day of the week is the one the library reports
  for the date (\<^verbatim>\<open>strftime("%a")\<close> prints its abbreviated English name).
\<close>

datatype weekday = Monday | Tuesday | Wednesday | Thursday | Friday | Saturday | Sunday

record datetime =
  year :: nat
  month :: nat
  day :: nat
  hour :: nat
  minute :: nat
  second :: nat
  weekday :: weekday

text \<open>\<^verbatim>\<open>now.date().isoformat()\<close>, that is \<^verbatim>\<open>%04d-%02d-%02d\<close>.\<close>

definition date_isoformat :: "datetime \<Rightarrow> string" where
  "date_isoformat t =
     zfill 4 (str_nat (year t)) @ ''-'' @ zfill 2 (str_nat (month t)) @ ''-'' @
     zfill 2 (str_nat (day t))"

text \<open>\<^verbatim>\<open>now.isoformat(timespec="seconds")\<close>.\<close>

definition isoformat_seconds :: "datetime \<Rightarrow> string" where
  "isoformat_seconds t =
     date_isoformat t @ ''T'' @ zfill 2 (str_nat (hour t)) @ '':'' @
     zfill 2 (str_nat (minute t)) @ '':'' @ zfill 2 (str_nat (second t))"




subsection \<open>The database\<close>

text \<open>
  A cart line, one dictionary of \<^verbatim>\<open>cart.values()\<close>; the list of them is what
  \<^verbatim>\<open>create_order\<close> stores (as JSON text, read back unchanged) in the column \<^verbatim>\<open>items\<close>.
\<close>

record cart_line =
  line_item_id :: int
  item_name :: string
  price :: rat
  original_price :: rat
  offer_desc :: "string option"
  qty :: int

record order =
  order_id :: int
  user_id :: string
  items :: "cart_line list"
  total_amount :: rat
  token_number :: string
  status :: string
  timestamp :: string

text \<open>
  The tables \<^verbatim>\<open>orders\<close> and \<^verbatim>\<open>offers\<close>. The column \<^verbatim>\<open>order_id\<close> is declared
  \<^verbatim>\<open>INTEGER PRIMARY KEY AUTOINCREMENT\<close>: SQLite keeps the largest key it ever gave out
  (\<open>orders_seq\<close>) and gives a new row a key above both it and every key in the table.
\<close>

record database =
  orders :: "order list"
  orders_seq :: int
  offers :: "offer_row list"

definition next_rowid :: "database \<Rightarrow> int" where
  "next_rowid db = 1 + foldr max (map order_id (orders db)) (orders_seq db)"

subsection \<open>Token allocation\<close>

text \<open>
  \<^verbatim>\<open>random.randint(a, b)\<close> draws from \<open>a..b\<close>, both ends included. The generator is a
  sequence of natural numbers, the \<open>i\<close>-th of which decides the \<open>i\<close>-th draw.
\<close>

definition randint :: "int \<Rightarrow> int \<Rightarrow> nat \<Rightarrow> int" where
  "randint a b r = a + int (r mod nat (b - a + 1))"

text \<open>
  The loop \<^verbatim>\<open>while True\<close> of \<^verbatim>\<open>_generate_unique_token\<close>, at its \<open>i\<close>-th draw. The query
  \<^verbatim>\<open>SELECT 1 FROM orders WHERE token_number = ?\<close> fetches a row or nothing. The loop has
  no other exit: a run that never finds a free token is the value \<^term>\<open>None\<close>.
\<close>

partial_function (option) generate_unique_token_loop ::
    "order list \<Rightarrow> (nat \<Rightarrow> nat) \<Rightarrow> nat \<Rightarrow> string option" where
  "generate_unique_token_loop rows rnd i =
     (let token = str_int (randint 1000 9999 (rnd i))
      in if List.find (\<lambda>row. token_number row = token) rows = None
         then Some token
         else generate_unique_token_loop rows rnd (Suc i))"

declare generate_unique_token_loop.simps [code]

definition generate_unique_token :: "database \<Rightarrow> (nat \<Rightarrow> nat) \<Rightarrow> string option" where
  "generate_unique_token db rnd = generate_unique_token_loop (orders db) rnd 0"

subsection \<open>Orders\<close>

text \<open>
  \<^verbatim>\<open>create_order\<close> returns the new database together with \<^verbatim>\<open>cur.lastrowid\<close>, once the
  token allocation has returned.
\<close>

definition create_order ::
    "database \<Rightarrow> (nat \<Rightarrow> nat) \<Rightarrow> datetime \<Rightarrow> string \<Rightarrow> cart_line list \<Rightarrow> rat \<Rightarrow>
     (database \<times> int) option" where
  "create_order db rnd now uid cart_items amount =
     (case generate_unique_token db rnd of
        None \<Rightarrow> None
      | Some token \<Rightarrow>
          (let lastrowid = next_rowid db;
               row = \<lparr>order_id = lastrowid, user_id = uid, items = cart_items,
                      total_amount = amount, token_number = token, status = ''PLACED'',
                      timestamp = isoformat_seconds now\<rparr>
           in Some (db\<lparr>orders := orders db @ [row], orders_seq := lastrowid\<rparr>, lastrowid)))"

text \<open>\<^verbatim>\<open>UPDATE orders SET status = ? WHERE order_id = ?\<close>.\<close>

definition update_order_status :: "database \<Rightarrow> int \<Rightarrow> string \<Rightarrow> database" where
  "update_order_status db oid new_status =
     db\<lparr>orders := map (\<lambda>row. if order_id row = oid then row\<lparr>status := new_status\<rparr> else row)
                       (orders db)\<rparr>"

text \<open>\<^verbatim>\<open>Order.create\<close>: the total is summed line by line and rounded to two places.\<close>

definition Order_create ::
    "database \<Rightarrow> (nat \<Rightarrow> nat) \<Rightarrow> datetime \<Rightarrow> string \<Rightarrow> cart_line list \<Rightarrow>
     (database \<times> int) option" where
  "Order_create db rnd now uid cart_items =
     (let total_sum = foldl (\<lambda>acc i. acc + price i * of_int (qty i)) 0 cart_items
      in create_order db rnd now uid cart_items (py_round total_sum 2))"

text \<open>
  A history of the ledger: the calls that write the table \<^verbatim>\<open>orders\<close> (\<^verbatim>\<open>create_order\<close>
  itself, \<^verbatim>\<open>Order.create\<close> and \<^verbatim>\<open>update_order_status\<close>), each with the generator and the
  clock reading it meets. A history is run from left to right and has a
  final database once every call has returned.
\<close>

datatype ledger_call =
  Create_order "nat \<Rightarrow> nat" datetime string "cart_line list" rat
| Checkout "nat \<Rightarrow> nat" datetime string "cart_line list"
| Set_status int string

fun run_call :: "database \<Rightarrow> ledger_call \<Rightarrow> database option" where
  "run_call db (Create_order rnd now uid cart_items amount) =
     map_option fst (create_order db rnd now uid cart_items amount)"
| "run_call db (Checkout rnd now uid cart_items) =
     map_option fst (Order_create db rnd now uid cart_items)"
| "run_call db (Set_status oid new_status) = Some (update_order_status db oid new_status)"

fun run_calls :: "database \<Rightarrow> ledger_call list \<Rightarrow> database option" where
  "run_calls db [] = Some db"
| "run_calls db (c # cs) =
     (case run_call db c of None \<Rightarrow> None | Some db' \<Rightarrow> run_calls db' cs)"

subsection \<open>The offers that apply to an item\<close>











subsection \<open>Notions used in the statements\<close>

text \<open>The token that the \<open>i\<close>-th draw of a generator produces, and the tokens in use.\<close>

definition drawn_token :: "(nat \<Rightarrow> nat) \<Rightarrow> nat \<Rightarrow> string" where
  "drawn_token rnd i = str_int (randint 1000 9999 (rnd i))"

definition used_tokens :: "order list \<Rightarrow> string set" where
  "used_tokens rows = token_number ` set rows"

text \<open>
  The discount amount of an offer on a price, as the loop computes it: the price times
  the hundredth of the value for a percentage offer, the value itself otherwise.
\<close>

definition discount_amount :: "rat \<Rightarrow> offer \<Rightarrow> rat" where
  "discount_amount p x =
     (if discount_type x = ''PERCENTAGE'' then p * (discount_value x / 100)
      else discount_value x)"



subsection \<open>Sample data\<close>

definition tuesday_night :: datetime where
  "tuesday_night =
     \<lparr>year = 2025, month = 11, day = 4, hour = 0, minute = 18, second = 55,
      weekday = Tuesday\<rparr>"

definition tea_line :: cart_line where
  "tea_line =
     \<lparr>line_item_id = 6, item_name = ''Tea'', price = 8, original_price = 10,
      offer_desc = Some ''Happy Hour: Rs 2.00 off'', qty = 3\<rparr>"

definition empty_db :: database where
  "empty_db = \<lparr>orders = [], orders_seq = 0, offers = []\<rparr>"

text \<open>A generator whose draws count upwards, and one that never moves.\<close>

definition counting_rnd :: "nat \<Rightarrow> nat" where
  "counting_rnd i = i"

definition stuck_rnd :: "nat \<Rightarrow> nat" where
  "stuck_rnd i = 0"

text \<open>A ledger in which each of the 9000 tokens belongs to an order.\<close>

definition full_orders :: "order list" where
  "full_orders =
     map (\<lambda>n. \<lparr>order_id = n - 999, user_id = ''S100'', items = [tea_line],
               total_amount = 24, token_number = str_int n, status = ''COMPLETED'',
               timestamp = ''2025-11-04T00:18:55''\<rparr>) [1000..9999]"

definition full_db :: database where
  "full_db = \<lparr>orders = full_orders, orders_seq = 9000, offers = []\<rparr>"

text \<open>A ledger with one order, whose token is 1000.\<close>

definition one_order_db :: database where
  "one_order_db =
     \<lparr>orders = [\<lparr>order_id = 1, user_id = ''S100'', items = [tea_line], total_amount = 24,
                 token_number = ''1000'', status = ''PLACED'',
                 timestamp = ''2025-11-04T00:18:55''\<rparr>],
      orders_seq = 1, offers = []\<rparr>"

text \<open>
  A history: two checkouts of the same cart with a status change between them, and a
  third order created by \<^verbatim>\<open>create_order\<close> alone.
\<close>

definition sample_history :: "ledger_call list" where
  "sample_history =
     [Checkout stuck_rnd tuesday_night ''S100'' [tea_line],
      Set_status 1 ''READY'',
      Checkout counting_rnd tuesday_night ''S100'' [tea_line],
      Create_order counting_rnd tuesday_night ''S100'' [tea_line] 24]"

text \<open>Offers: 20 percent off everything, 10 rupees off the dosa, 2 rupees off tea, and a
  fixed discount of nothing.\<close>

definition lunch_offer :: offer where
  "lunch_offer =
     \<lparr>offer_id = 1, offer_name = ''Lunch'', item_id = None, discount_type = ''PERCENTAGE'',
      discount_value = 20, start_date = None, end_date = None, day_of_week = None\<rparr>"



definition zero_offer :: offer where
  "zero_offer =
     \<lparr>offer_id = 4, offer_name = ''Launch'', item_id = None, discount_type = ''FIXED'',
      discount_value = 0, start_date = None, end_date = None, day_of_week = None\<rparr>"


section \<open>Token allocation\<close>

lemma find_token_None:
  "(List.find (\<lambda>row. token_number row = t) rows = None) = (t \<notin> used_tokens rows)"
  by (auto simp: find_None_iff used_tokens_def)

lemma loop_unfold:
  "generate_unique_token_loop rows rnd i =
     (if drawn_token rnd i \<notin> used_tokens rows then Some (drawn_token rnd i)
      else generate_unique_token_loop rows rnd (Suc i))"
  by (subst generate_unique_token_loop.simps) (simp add: Let_def find_token_None drawn_token_def)

text \<open>A run of the loop that returns has met used tokens only, before the one it returns.\<close>

lemma loop_Some_first_free:
  assumes "generate_unique_token_loop rows rnd i = Some t"
  shows "\<exists>n. t = drawn_token rnd (i + n) \<and> t \<notin> used_tokens rows \<and>
             (\<forall>k<n. drawn_token rnd (i + k) \<in> used_tokens rows)"
proof (rule generate_unique_token_loop.raw_induct
    [where P = "\<lambda>rows rnd i t. \<exists>n. t = drawn_token rnd (i + n) \<and> t \<notin> used_tokens rows \<and>
             (\<forall>k<n. drawn_token rnd (i + k) \<in> used_tokens rows)", OF _ assms])
  fix loop rows rnd i t
  assume IH: "\<And>rows rnd i t. loop rows rnd i = Some t \<Longrightarrow>
      \<exists>n. t = drawn_token rnd (i + n) \<and> t \<notin> used_tokens rows \<and>
             (\<forall>k<n. drawn_token rnd (i + k) \<in> used_tokens rows)"
    and body: "(let token = str_int (randint 1000 9999 (rnd i))
        in if List.find (\<lambda>row. token_number row = token) rows = None then Some token
           else loop rows rnd (Suc i)) = Some t"
  show "\<exists>n. t = drawn_token rnd (i + n) \<and> t \<notin> used_tokens rows \<and>
             (\<forall>k<n. drawn_token rnd (i + k) \<in> used_tokens rows)"
  proof (cases "drawn_token rnd i \<in> used_tokens rows")
    case False
    with body have "t = drawn_token rnd i"
      by (simp add: Let_def find_token_None drawn_token_def)
    with False show ?thesis by (intro exI[of _ 0]) simp
  next
    case True
    with body have "loop rows rnd (Suc i) = Some t"
      by (simp add: Let_def find_token_None drawn_token_def)
    from IH[OF this] obtain n where n: "t = drawn_token rnd (Suc i + n)" "t \<notin> used_tokens rows"
      "\<forall>k<n. drawn_token rnd (Suc i + k) \<in> used_tokens rows" by blast
    have "\<forall>k<Suc n. drawn_token rnd (i + k) \<in> used_tokens rows"
    proof (intro allI impI)
      fix k assume "k < Suc n"
      show "drawn_token rnd (i + k) \<in> used_tokens rows"
      proof (cases k)
        case 0 with True show ?thesis by simp
      next
        case (Suc k')
        with \<open>k < Suc n\<close> n(3) show ?thesis by simp
      qed
    qed
    with n(1,2) show ?thesis by (intro exI[of _ "Suc n"]) simp
  qed
qed

text \<open>The loop returns at the first draw of a free token.\<close>

lemma loop_returns_first_free:
  "drawn_token rnd (i + n) \<notin> used_tokens rows \<Longrightarrow>
   (\<forall>k<n. drawn_token rnd (i + k) \<in> used_tokens rows) \<Longrightarrow>
   generate_unique_token_loop rows rnd i = Some (drawn_token rnd (i + n))"
proof (induction n arbitrary: i)
  case 0
  then show ?case by (subst loop_unfold) simp
next
  case (Suc n)
  from Suc.prems(2) have "drawn_token rnd i \<in> used_tokens rows"
    by (metis add.right_neutral zero_less_Suc)
  moreover have "generate_unique_token_loop rows rnd (Suc i) = Some (drawn_token rnd (Suc i + n))"
  proof (rule Suc.IH)
    show "drawn_token rnd (Suc i + n) \<notin> used_tokens rows" using Suc.prems(1) by simp
    show "\<forall>k<n. drawn_token rnd (Suc i + k) \<in> used_tokens rows"
      using Suc.prems(2) by (metis Suc_less_eq add_Suc_shift)
  qed
  ultimately show ?case by (subst loop_unfold) simp
qed

lemma loop_None_iff:
  "generate_unique_token_loop rows rnd i = None \<longleftrightarrow>
     (\<forall>n. drawn_token rnd (i + n) \<in> used_tokens rows)"
proof
  assume none: "generate_unique_token_loop rows rnd i = None"
  show "\<forall>n. drawn_token rnd (i + n) \<in> used_tokens rows"
  proof (rule ccontr)
    assume "\<not> (\<forall>n. drawn_token rnd (i + n) \<in> used_tokens rows)"
    then have ex: "\<exists>n. drawn_token rnd (i + n) \<notin> used_tokens rows" by blast
    define m where "m = (LEAST n. drawn_token rnd (i + n) \<notin> used_tokens rows)"
    have "drawn_token rnd (i + m) \<notin> used_tokens rows"
      unfolding m_def using ex by (rule LeastI_ex)
    moreover have "\<forall>k<m. drawn_token rnd (i + k) \<in> used_tokens rows"
      unfolding m_def using not_less_Least by blast
    ultimately have "generate_unique_token_loop rows rnd i = Some (drawn_token rnd (i + m))"
      by (rule loop_returns_first_free)
    with none show False by simp
  qed
next
  assume all: "\<forall>n. drawn_token rnd (i + n) \<in> used_tokens rows"
  show "generate_unique_token_loop rows rnd i = None"
  proof (cases "generate_unique_token_loop rows rnd i")
    case None then show ?thesis .
  next
    case (Some t)
    from loop_Some_first_free[OF this] all show ?thesis by blast
  qed
qed

lemma randint_range: "a \<le> b \<Longrightarrow> a \<le> randint a b r \<and> randint a b r \<le> b"
  unfolding randint_def
proof
  assume ab: "a \<le> b"
  show "a \<le> a + int (r mod nat (b - a + 1))" by simp
  have "r mod nat (b - a + 1) < nat (b - a + 1)" using ab by (intro mod_less_divisor) simp
  then show "a + int (r mod nat (b - a + 1)) \<le> b" using ab by linarith
qed

lemma drawn_token_four_digits: "\<exists>n. 1000 \<le> n \<and> n \<le> 9999 \<and> drawn_token rnd i = str_int n"
  unfolding drawn_token_def using randint_range[of 1000 9999 "rnd i"] by auto

lemma used_tokens_full: "used_tokens full_orders = str_int ` {1000..9999}"
  unfolding used_tokens_def full_orders_def
  by (simp only: set_map set_upto image_image order.simps)

lemma full_db_no_free_token: "drawn_token rnd i \<in> used_tokens (orders full_db)"
proof -
  obtain n where n: "1000 \<le> n" "n \<le> 9999" "drawn_token rnd i = str_int n"
    using drawn_token_four_digits[of rnd i] by blast
  have "n \<in> {1000..9999}" using n(1,2) by (simp only: atLeastAtMost_iff conj_commute)
  then have "str_int n \<in> str_int ` {1000..9999}" by (rule imageI)
  then show ?thesis by (simp only: full_db_def database.simps used_tokens_full n(3))
qed

text \<open>
  Claim C7 says that token allocation terminates for every ledger state, that its retry
  loop is bounded, and that it fails once the token space is exhausted. The loop of
  \<^verbatim>\<open>_generate_unique_token\<close> has no bound and no failing exit. On the ledger that uses all
  9000 tokens, the allocation never returns, here with the generator that draws 1000,
  1001, 1002 and so on.
\<close>

theorem token_allocation_never_returns_on_full_ledger:
  "generate_unique_token full_db counting_rnd = None"
  unfolding generate_unique_token_def loop_None_iff using full_db_no_free_token by blast

text \<open>
  Claim C7, amended. Token allocation draws strings of the numbers 1000 to 9999 and
  returns the first drawn one that no order uses. It returns, with a token that is not
  in use, exactly when the generator draws a free token at some point, and it never
  returns otherwise; when every token from 1000 to 9999 is in use it never returns,
  whatever the generator draws.
\<close>

theorem generate_unique_token_first_free:
  "(generate_unique_token db rnd = None \<longleftrightarrow>
      (\<forall>i. drawn_token rnd i \<in> used_tokens (orders db))) \<and>
   (\<forall>t. generate_unique_token db rnd = Some t \<longrightarrow>
      t \<notin> used_tokens (orders db) \<and>
      (\<exists>i. t = drawn_token rnd i \<and> (\<forall>j<i. drawn_token rnd j \<in> used_tokens (orders db))) \<and>
      (\<exists>n. 1000 \<le> n \<and> n \<le> 9999 \<and> t = str_int n)) \<and>
   ((\<forall>n\<in>{1000..9999}. str_int n \<in> used_tokens (orders db)) \<longrightarrow>
      generate_unique_token db rnd = None)"
proof (intro conjI allI impI)
  show "generate_unique_token db rnd = None \<longleftrightarrow>
      (\<forall>i. drawn_token rnd i \<in> used_tokens (orders db))"
    by (simp add: generate_unique_token_def loop_None_iff)
next
  fix t assume t: "generate_unique_token db rnd = Some t"
  then obtain n where n: "t = drawn_token rnd n" "t \<notin> used_tokens (orders db)"
    "\<forall>k<n. drawn_token rnd k \<in> used_tokens (orders db)"
    using loop_Some_first_free[of "orders db" rnd 0 t] by (auto simp: generate_unique_token_def)
  show "t \<notin> used_tokens (orders db)" by (rule n(2))
  show "\<exists>i. t = drawn_token rnd i \<and> (\<forall>j<i. drawn_token rnd j \<in> used_tokens (orders db))"
    using n by blast
  show "\<exists>n. 1000 \<le> n \<and> n \<le> 9999 \<and> t = str_int n"
    using drawn_token_four_digits[of rnd n] n(1) by simp
next
  assume full: "\<forall>n\<in>{1000..9999}. str_int n \<in> used_tokens (orders db)"
  have "drawn_token rnd i \<in> used_tokens (orders db)" for i
    using drawn_token_four_digits[of rnd i] full by auto
  then show "generate_unique_token db rnd = None"
    by (simp add: generate_unique_token_def loop_None_iff)
qed

text \<open>
  On the ledger whose one order has the token 1000, the counting generator draws 1000,
  which is in use, and then 1001, which is returned; the generator that draws 1000 for
  ever never lets the allocation return; and on the full ledger no generator does.
\<close>

theorem generate_unique_token_first_free_witness:
  "generate_unique_token one_order_db counting_rnd = Some ''1001'' \<and>
   ''1001'' \<notin> used_tokens (orders one_order_db) \<and>
   generate_unique_token one_order_db stuck_rnd = None \<and>
   generate_unique_token full_db stuck_rnd = None"
proof -
  have a: "generate_unique_token one_order_db counting_rnd = Some ''1001''" by code_simp
  have b: "\<forall>i. drawn_token stuck_rnd i \<in> used_tokens (orders one_order_db)"
    by (simp add: drawn_token_def stuck_rnd_def used_tokens_def one_order_db_def randint_def
         str_int_def str_nat.simps digit_char_def)
  have c: "\<forall>n\<in>{1000..9999}. str_int n \<in> used_tokens (orders full_db)"
    by (simp only: full_db_def database.simps used_tokens_full) blast
  from generate_unique_token_first_free[of one_order_db counting_rnd] a
       generate_unique_token_first_free[of one_order_db stuck_rnd] b
       generate_unique_token_first_free[of full_db stuck_rnd] c
  show ?thesis by simp
qed

section \<open>The order ledger\<close>

lemma generate_unique_token_unused:
  "generate_unique_token db rnd = Some t \<Longrightarrow> t \<notin> used_tokens (orders db)"
  using loop_Some_first_free[of "orders db" rnd 0 t] by (auto simp: generate_unique_token_def)


lemma create_order_Some:
  assumes "create_order db rnd now uid cart_items amount = Some (db', oid)"
  shows "\<exists>token. generate_unique_token db rnd = Some token \<and> oid = next_rowid db \<and>
           db' = db\<lparr>orders := orders db @
                  [\<lparr>order_id = oid, user_id = uid, items = cart_items, total_amount = amount,
                    token_number = token, status = ''PLACED'',
                    timestamp = isoformat_seconds now\<rparr>],
                 orders_seq := oid\<rparr>"
  using assms by (auto simp: create_order_def Let_def split: option.splits)

lemma update_order_status_tokens:
  "map token_number (orders (update_order_status db oid s)) = map token_number (orders db)"
  by (simp add: update_order_status_def comp_def if_distrib[of token_number] cong: if_cong)

lemma create_order_keeps_tokens_distinct:
  assumes "distinct (map token_number (orders db))"
    and "create_order db rnd now uid cart_items amount = Some (db', oid)"
  shows "distinct (map token_number (orders db'))"
proof -
  from create_order_Some[OF assms(2)] obtain token where
    tok: "generate_unique_token db rnd = Some token" and
    db': "map token_number (orders db') = map token_number (orders db) @ [token]"
    by auto
  from generate_unique_token_unused[OF tok] have "token \<notin> set (map token_number (orders db))"
    by (simp add: used_tokens_def)
  with assms(1) db' show ?thesis by simp
qed

lemma run_call_keeps_tokens_distinct:
  assumes "distinct (map token_number (orders db))" and "run_call db c = Some db'"
  shows "distinct (map token_number (orders db'))"
proof (cases c)
  case (Create_order rnd now uid cart_items amount)
  with assms(2) obtain oid where
    "create_order db rnd now uid cart_items amount = Some (db', oid)"
    by auto
  from create_order_keeps_tokens_distinct[OF assms(1) this] show ?thesis .
next
  case (Checkout rnd now uid cart_items)
  with assms(2) obtain oid where
    "create_order db rnd now uid cart_items
       (py_round (foldl (\<lambda>acc i. acc + price i * of_int (qty i)) 0 cart_items) 2) = Some (db', oid)"
    by (auto simp: Order_create_def Let_def)
  from create_order_keeps_tokens_distinct[OF assms(1) this] show ?thesis .
next
  case (Set_status oid s)
  with assms show ?thesis by (auto simp: update_order_status_tokens)
qed

text \<open>
  Claim C1. Token numbers are unique across all orders at all times: a ledger whose
  tokens are pairwise distinct (the empty ledger is one) keeps them pairwise distinct
  through every history of order creations and status changes whose calls return, run
  one after the other. An order creation returns once its token allocation does, which
  needs a free token.
\<close>

theorem token_numbers_unique:
  assumes "distinct (map token_number (orders db))" and "run_calls db cs = Some db'"
  shows "distinct (map token_number (orders db'))"
  using assms
proof (induction cs arbitrary: db)
  case Nil
  then show ?case by simp
next
  case (Cons c cs)
  from Cons.prems(2) obtain db1 where
    c: "run_call db c = Some db1" and cs: "run_calls db1 cs = Some db'"
    by (auto split: option.splits)
  from run_call_keeps_tokens_distinct[OF Cons.prems(1) c]
  have "distinct (map token_number (orders db1))" .
  from Cons.IH[OF this cs] show ?case .
qed

text \<open>
  Three orders on the empty ledger: the first takes the token 1000; the second draws
  1000 again, retries, and takes 1001; the third draws 1000 and 1001 and takes 1002.
\<close>

theorem token_numbers_unique_witness:
  "distinct (map token_number (orders empty_db)) \<and>
   map_option (map token_number \<circ> orders) (run_calls empty_db sample_history) =
     Some [''1000'', ''1001'', ''1002''] \<and>
   map_option (distinct \<circ> map token_number \<circ> orders) (run_calls empty_db sample_history) =
     Some True"
proof -
  have a: "map_option (map token_number \<circ> orders) (run_calls empty_db sample_history) =
     Some [''1000'', ''1001'', ''1002'']"
    by code_simp
  then obtain db' where r: "run_calls empty_db sample_history = Some db'" by auto
  have d: "distinct (map token_number (orders empty_db))" by (simp add: empty_db_def)
  from token_numbers_unique[OF d r] a d r show ?thesis by simp
qed








section \<open>The best discount\<close>

text \<open>The loop computes the discount amount of each offer.\<close>

lemma best_offer_loop_Cons:
  "best_offer_loop p (x # xs) (b, d) =
     (if d < discount_amount p x then best_offer_loop p xs (Some x, discount_amount p x)
      else best_offer_loop p xs (b, d))"
  by (simp add: Let_def discount_amount_def)

declare best_offer_loop.simps(2) [simp del]

lemma best_offer_loop_none_better:
  "\<forall>x\<in>set xs. discount_amount p x \<le> d \<Longrightarrow> best_offer_loop p xs (b, d) = (b, d)"
  by (induction xs) (auto simp: best_offer_loop_Cons)









text \<open>
  Claim C10. For every list of offers that is not empty and in which the discount amount
  of every offer is exactly 0, no offer is selected, and the result is the unchanged
  price with no description.
\<close>

theorem no_offer_selected_when_all_discounts_zero:
  assumes "offs \<noteq> []" and "\<forall>x\<in>set offs. discount_amount p x = 0"
  shows "best_offer_loop p offs (None, 0) = (None, 0) \<and>
         calculate_discounted_price p offs = (p, None)"
proof -
  from assms(2) have "\<forall>x\<in>set offs. discount_amount p x \<le> 0" by simp
  from best_offer_loop_none_better[OF this, of None]
  have "best_offer_loop p offs (None, 0) = (None, 0)" .
  then show ?thesis by (simp add: calculate_discounted_price_def)
qed

text \<open>An item priced 0 with 20 percent off, and a fixed discount of 0.\<close>

theorem no_offer_selected_when_all_discounts_zero_witness:
  "[lunch_offer, zero_offer] \<noteq> [] \<and>
   map (discount_amount 0) [lunch_offer, zero_offer] = [0, 0] \<and>
   best_offer_loop 0 [lunch_offer, zero_offer] (None, 0) = (None, 0) \<and>
   calculate_discounted_price 0 [lunch_offer, zero_offer] = (0, None)"
proof -
  have m: "map (discount_amount 0) [lunch_offer, zero_offer] = [0, 0]"
    by (simp add: discount_amount_def zero_offer_def lunch_offer_def)
  then have h: "\<forall>x\<in>set [lunch_offer, zero_offer]. discount_amount 0 x = 0" by simp
  have n: "[lunch_offer, zero_offer] \<noteq> []" by simp
  from no_offer_selected_when_all_discounts_zero[OF n h] m show ?thesis by simp
qed

section \<open>Applicable offers\<close>






section \<open>Status updates\<close>

text \<open>
  Claim C6. \<^verbatim>\<open>update_order_status\<close> accepts every order key and every status text. It
  keeps the number and the positions of the orders; the order with the given key gets
  the given status, whatever its status was; its items, total, token, timestamp, user and
  key stay as they were; every other order, the key sequence and the offers stay as they
  were.
\<close>

theorem update_order_status_frame:
  "orders_seq (update_order_status db oid s) = orders_seq db \<and>
   offers (update_order_status db oid s) = offers db \<and>
   length (orders (update_order_status db oid s)) = length (orders db) \<and>
   (\<forall>i<length (orders db).
      status (orders (update_order_status db oid s) ! i) =
        (if order_id (orders db ! i) = oid then s else status (orders db ! i)) \<and>
      items (orders (update_order_status db oid s) ! i) = items (orders db ! i) \<and>
      total_amount (orders (update_order_status db oid s) ! i) = total_amount (orders db ! i) \<and>
      token_number (orders (update_order_status db oid s) ! i) = token_number (orders db ! i) \<and>
      timestamp (orders (update_order_status db oid s) ! i) = timestamp (orders db ! i) \<and>
      user_id (orders (update_order_status db oid s) ! i) = user_id (orders db ! i) \<and>
      order_id (orders (update_order_status db oid s) ! i) = order_id (orders db ! i) \<and>
      (order_id (orders db ! i) \<noteq> oid \<longrightarrow>
         orders (update_order_status db oid s) ! i = orders db ! i))"
  by (simp add: update_order_status_def)

text \<open>
  The order of the one-order ledger goes from PLACED straight to COMPLETED, and to a
  text that names no status at all; an update for a key that no order has changes
  nothing.
\<close>

theorem update_order_status_frame_witness:
  "0 < length (orders one_order_db) \<and>
   map status (orders one_order_db) = [''PLACED''] \<and>
   map status (orders (update_order_status one_order_db 1 ''COMPLETED'')) = [''COMPLETED''] \<and>
   map status (orders (update_order_status one_order_db 1 ''no such status'')) =
     [''no such status''] \<and>
   map token_number (orders (update_order_status one_order_db 1 ''COMPLETED'')) = [''1000''] \<and>
   update_order_status one_order_db 7 ''READY'' = one_order_db"
proof -
  have l: "0 < length (orders one_order_db)" by (simp add: one_order_db_def)
  have e: "update_order_status one_order_db 7 ''READY'' = one_order_db"
    by (simp add: update_order_status_def one_order_db_def)
  from update_order_status_frame[of one_order_db 1 "''COMPLETED''"]
       update_order_status_frame[of one_order_db 1 "''no such status''"] l e
  show ?thesis by (simp add: one_order_db_def update_order_status_def)
qed

end
